theory Spec2Isabelle
  imports Complex_Main "HOL-Library.Multiset"
begin

section \<open>Platform model: strings, numbers and dates of the JavaScript host\<close>

text \<open>
  The program is TypeScript. Its strings are modelled as \<^typ>\<open>string\<close> (the code units of
  the text, one \<^typ>\<open>char\<close> each), its numbers as exact \<^typ>\<open>real\<close> values with the
  not-a-number result of a failed parse written as \<^term>\<open>None\<close>; rounding to binary64 is
  not part of the model. A \<open>Date\<close> object is its time value in milliseconds, or the
  invalid date; local time is read with a fixed zero offset and no daylight-saving
  shifts, so a calendar day is always exactly \<open>msPerDay\<close> long.
\<close>

subsection \<open>Characters and \<open>String.prototype\<close> functions\<close>

definition isDigit :: "char \<Rightarrow> bool" where
  "isDigit c = (c \<in> set ''0123456789'')"

definition digitVal :: "char \<Rightarrow> nat" where
  "digitVal c = of_char c - 48"

definition isHexDigit :: "char \<Rightarrow> bool" where
  "isHexDigit c = (c \<in> set ''0123456789abcdefABCDEF'')"

definition hexDigitVal :: "char \<Rightarrow> nat" where
  "hexDigitVal c =
     (if isDigit c then of_char c - 48
      else if c \<in> set ''abcdef'' then of_char c - 87
      else of_char c - 55)"

text \<open>White space of the code units below 256: TAB, LF, VT, FF, CR, SP and NBSP.\<close>

definition isWhiteSpace :: "char \<Rightarrow> bool" where
  "isWhiteSpace c = (of_char c \<in> {9, 10, 11, 12, 13, 32, 160 :: nat})"

text \<open>The value of a run of digits in a radix, most significant digit first.\<close>

definition digitsValue :: "nat \<Rightarrow> (char \<Rightarrow> nat) \<Rightarrow> string \<Rightarrow> nat" where
  "digitsValue radix dv ds = foldl (\<lambda>acc c. acc * radix + dv c) 0 ds"

text \<open>\<open>str.includes(c)\<close> for a one-character pattern.\<close>

definition str_includes :: "string \<Rightarrow> char \<Rightarrow> bool" where
  "str_includes str c = (c \<in> set str)"

text \<open>
  \<open>str.split(sep)\<close> for a one-character separator: the pieces between the
  separators, so there is always one piece more than there are separators.
\<close>

fun split :: "char \<Rightarrow> string \<Rightarrow> string list" where
  "split sep [] = [[]]"
| "split sep (c # cs) =
     (if c = sep then [] # split sep cs
      else (case split sep cs of
              [] \<Rightarrow> [[c]]
            | p # ps \<Rightarrow> (c # p) # ps))"

text \<open>
  \<open>parseInt(s)\<close> without a radix: leading white space is skipped, then an optional
  sign, then either \<open>0x\<close>/\<open>0X\<close> and hexadecimal digits or decimal digits; what
  follows the digits is ignored. No digit at all is NaN.
\<close>

definition parseInt :: "string \<Rightarrow> int option" where
  "parseInt s =
     (let s1 = dropWhile isWhiteSpace s;
          sgn = (case s1 of c # _ \<Rightarrow> if c = CHR ''-'' then - 1 else 1 | [] \<Rightarrow> (1::int));
          s2 = (case s1 of c # r \<Rightarrow> if c = CHR ''-'' \<or> c = CHR ''+'' then r else s1 | [] \<Rightarrow> s1)
      in if take 2 s2 = ''0x'' \<or> take 2 s2 = ''0X''
         then (let z = takeWhile isHexDigit (drop 2 s2)
               in if z = [] then None else Some (sgn * int (digitsValue 16 hexDigitVal z)))
         else (let z = takeWhile isDigit s2
               in if z = [] then None else Some (sgn * int (digitsValue 10 digitVal z))))"

subsection \<open>Dates\<close>

datatype Date = InvalidDate | Time int

definition msPerDay :: int where
  "msPerDay = 86400000"

definition maxTime :: int where
  "maxTime = 8640000000000000"

definition TimeClip :: "int \<Rightarrow> Date" where
  "TimeClip t = (if \<bar>t\<bar> > maxTime then InvalidDate else Time t)"

text \<open>A \<open>Date\<close> object never holds a time value beyond \<open>maxTime\<close>.\<close>

definition wfDate :: "Date \<Rightarrow> bool" where
  "wfDate d = (case d of InvalidDate \<Rightarrow> True | Time t \<Rightarrow> \<bar>t\<bar> \<le> maxTime)"

definition Day :: "int \<Rightarrow> int" where
  "Day t = t div msPerDay"

definition DayFromYear :: "int \<Rightarrow> int" where
  "DayFromYear y =
     365 * (y - 1970) + (y - 1969) div 4 - (y - 1901) div 100 + (y - 1601) div 400"

definition InLeapYear :: "int \<Rightarrow> bool" where
  "InLeapYear y = (y mod 4 = 0 \<and> (y mod 100 \<noteq> 0 \<or> y mod 400 = 0))"

text \<open>Days of the year before the first of month \<open>mn\<close> (0 is January).\<close>

definition DaysBeforeMonth :: "bool \<Rightarrow> int \<Rightarrow> int" where
  "DaysBeforeMonth leap mn =
     (if mn = 0 then 0
      else if mn = 1 then 31
      else [59, 90, 120, 151, 181, 212, 243, 273, 304, 334] ! nat (mn - 2)
           + (if leap then 1 else 0))"

text \<open>
  \<open>MakeDay(year, month, date)\<close>: months outside 0..11 carry into the year and the day
  of the month is added as an offset, so out-of-range fields roll over.
\<close>

definition MakeDay :: "int \<Rightarrow> int \<Rightarrow> int \<Rightarrow> int" where
  "MakeDay year month date =
     (let ym = year + month div 12;
          mn = month mod 12
      in DayFromYear ym + DaysBeforeMonth (InLeapYear ym) mn + date - 1)"

text \<open>
  \<open>new Date(year, month, date)\<close> at local midnight. A NaN argument gives the
  invalid date; a year from 0 to 99 means 1900 + year.
\<close>

definition newDate :: "int option \<Rightarrow> int option \<Rightarrow> int option \<Rightarrow> Date" where
  "newDate year month date =
     (case (year, month, date) of
        (Some y, Some m, Some d) \<Rightarrow>
          (let yr = (if 0 \<le> y \<and> y \<le> 99 then 1900 + y else y)
           in TimeClip (MakeDay yr m d * msPerDay))
      | _ \<Rightarrow> InvalidDate)"

text \<open>\<open>parseInt(s) - 1\<close>: NaN stays NaN.\<close>

definition minus1 :: "int option \<Rightarrow> int option" where
  "minus1 n = map_option (\<lambda>m. m - 1) n"

section \<open>utils/helpers.ts\<close>

text \<open>
  \<open>parseDate\<close>: \<^term>\<open>None\<close> is the \<open>null\<close> result. A text that splits into three
  parts is handed to the \<open>Date\<close> constructor as it is.
\<close>

definition parseDate :: "string \<Rightarrow> Date option" where
  "parseDate dateStr =
     (if dateStr = [] then None
      else if str_includes dateStr (CHR ''/'') \<and> length (split (CHR ''/'') dateStr) = 3
      then (let parts = split (CHR ''/'') dateStr
            in Some (newDate (parseInt (parts ! 2)) (minus1 (parseInt (parts ! 1)))
                             (parseInt (parts ! 0))))
      else if str_includes dateStr (CHR ''-'') \<and> length (split (CHR ''-'') dateStr) = 3
      then (let parts = split (CHR ''-'') dateStr
            in Some (newDate (parseInt (parts ! 0)) (minus1 (parseInt (parts ! 1)))
                             (parseInt (parts ! 2))))
      else None)"

definition parseInputDate :: "string \<Rightarrow> Date option" where
  "parseInputDate isoStr =
     (if isoStr = [] then None
      else (let parts = split (CHR ''-'') isoStr
            in if length parts \<noteq> 3 then None
               else Some (newDate (parseInt (parts ! 0)) (minus1 (parseInt (parts ! 1)))
                                  (parseInt (parts ! 2)))))"

text \<open>
  \<open>parseFloat(s)\<close> on a text of digits, dots and minus signs, which is all that the
  cleaning below lets through: an optional minus sign, digits, and a fraction after the
  first dot; the longest such prefix is read and the rest ignored. A prefix without
  any digit is NaN.
\<close>

definition parseFloat :: "string \<Rightarrow> real option" where
  "parseFloat s =
     (let neg = (case s of c # _ \<Rightarrow> c = CHR ''-'' | [] \<Rightarrow> False);
          r = (if neg then tl s else s);
          ip = takeWhile isDigit r;
          r' = dropWhile isDigit r;
          fp = (case r' of c # r'' \<Rightarrow> if c = CHR ''.'' then takeWhile isDigit r'' else []
                | [] \<Rightarrow> [])
      in if ip = [] \<and> fp = [] then None
         else Some ((if neg then - 1 else 1) *
                    (real (digitsValue 10 digitVal ip) +
                     real (digitsValue 10 digitVal fp) / 10 ^ length fp)))"

text \<open>\<open>x || 0\<close> on a number: NaN and zero give 0.\<close>

definition orZero :: "real option \<Rightarrow> real" where
  "orZero x = (case x of None \<Rightarrow> 0 | Some v \<Rightarrow> v)"

definition trim :: "string \<Rightarrow> string" where
  "trim s = rev (dropWhile isWhiteSpace (rev (dropWhile isWhiteSpace s)))"

text \<open>\<open>.replace(/\./g, '')\<close>\<close>

definition removeDots :: "string \<Rightarrow> string" where
  "removeDots s = filter (\<lambda>c. c \<noteq> CHR ''.'') s"

text \<open>\<open>.replace(',', '.')\<close>: a text pattern replaces the first occurrence only.\<close>

fun replaceFirstComma :: "string \<Rightarrow> string" where
  "replaceFirstComma [] = []"
| "replaceFirstComma (c # cs) =
     (if c = CHR '','' then CHR ''.'' # cs else c # replaceFirstComma cs)"

text \<open>\<open>.replace(/[^\d.-]/g, '')\<close>\<close>

definition keepNumeric :: "string \<Rightarrow> string" where
  "keepNumeric s = filter (\<lambda>c. isDigit c \<or> c = CHR ''.'' \<or> c = CHR ''-'') s"

text \<open>
  \<open>parseCurrency\<close> on a text (the rows of the sheets hold texts only, so the
  \<open>typeof val === 'number'\<close> shortcut is never taken).
\<close>

definition parseCurrency :: "string \<Rightarrow> real" where
  "parseCurrency val =
     (if val = [] then 0
      else (let strVal = trim val
            in if str_includes strVal (CHR '','')
               then (let clean = keepNumeric (replaceFirstComma (removeDots strVal))
                     in orZero (parseFloat clean))
               else (let clean = keepNumeric strVal
                     in orZero (parseFloat clean))))"

text \<open>The text that \<open>parseCurrency\<close> hands to \<open>parseFloat\<close>: \<open>clean\<close>, in either branch.\<close>

definition cleanedText :: "string \<Rightarrow> string" where
  "cleanedText val =
     (if str_includes (trim val) (CHR '','')
      then keepNumeric (replaceFirstComma (removeDots (trim val)))
      else keepNumeric (trim val))"

subsection \<open>Business days\<close>

text \<open>\<open>new Date(d.getTime())\<close>\<close>

definition copyDate :: "Date \<Rightarrow> Date" where
  "copyDate d = (case d of InvalidDate \<Rightarrow> InvalidDate | Time t \<Rightarrow> TimeClip t)"

text \<open>\<open>d.setHours(0,0,0,0)\<close>: midnight of the same local day.\<close>

definition setHours0 :: "Date \<Rightarrow> Date" where
  "setHours0 d = (case d of InvalidDate \<Rightarrow> InvalidDate | Time t \<Rightarrow> TimeClip (Day t * msPerDay))"

text \<open>
  \<open>d.toDateString()\<close> writes the weekday, month, day and year of the local calendar
  day, so two valid dates have the same text exactly when they fall on the same day;
  the text is represented by the day number, and \<^term>\<open>None\<close> is \<open>"Invalid Date"\<close>.
\<close>

definition toDateString :: "Date \<Rightarrow> int option" where
  "toDateString d = (case d of InvalidDate \<Rightarrow> None | Time t \<Rightarrow> Some (Day t))"

text \<open>The day of the week of a day number: 0 is Sunday; day 0 (1 January 1970) was a Thursday.\<close>

definition WeekDay :: "int \<Rightarrow> int" where
  "WeekDay day = (day + 4) mod 7"

text \<open>\<open>d.getDay()\<close>\<close>

definition getDay :: "Date \<Rightarrow> int option" where
  "getDay d = (case d of InvalidDate \<Rightarrow> None | Time t \<Rightarrow> Some (WeekDay (Day t)))"

text \<open>
  \<open>d.setDate(d.getDate() + 1)\<close>: the day of the month one further, which
  \<open>MakeDay\<close> turns into the next day number at the same time of day.
\<close>

definition setDateNext :: "Date \<Rightarrow> Date" where
  "setDateNext d = (case d of InvalidDate \<Rightarrow> InvalidDate | Time t \<Rightarrow> TimeClip (t + msPerDay))"

text \<open>\<open>a <= b\<close> and \<open>a < b\<close> on dates compare the time values; NaN compares false.\<close>

definition date_le :: "Date \<Rightarrow> Date \<Rightarrow> bool" where
  "date_le a b = (case (a, b) of (Time x, Time y) \<Rightarrow> x \<le> y | _ \<Rightarrow> False)"

definition date_lt :: "Date \<Rightarrow> Date \<Rightarrow> bool" where
  "date_lt a b = (case (a, b) of (Time x, Time y) \<Rightarrow> x < y | _ \<Rightarrow> False)"

text \<open>The \<open>while (curDate <= endDate)\<close> loop of \<open>calculateBusinessDays\<close>.\<close>

function businessDaysLoop :: "Date \<Rightarrow> Date \<Rightarrow> int option list \<Rightarrow> nat \<Rightarrow> nat" where
  "businessDaysLoop curDate endDate holidayStrings cnt =
     (if date_le curDate endDate
      then businessDaysLoop (setDateNext curDate) endDate holidayStrings
             (if getDay curDate \<noteq> Some 0 \<and> getDay curDate \<noteq> Some 6
                 \<and> toDateString curDate \<notin> set holidayStrings
              then cnt + 1 else cnt)
      else cnt)"
  by pat_completeness auto
termination
  by (relation "measure (\<lambda>(c, e, h, n). case (c, e) of
                    (Time a, Time b) \<Rightarrow> nat (b - a + 1) | _ \<Rightarrow> 0)")
     (auto simp: date_le_def setDateNext_def TimeClip_def msPerDay_def
           split: Date.splits if_splits)

declare businessDaysLoop.simps [simp del]

definition calculateBusinessDays :: "Date \<Rightarrow> Date \<Rightarrow> Date list \<Rightarrow> nat" where
  "calculateBusinessDays start end' holidays =
     (let curDate = setHours0 (copyDate start);
          endDate = setHours0 (copyDate end');
          holidayStrings = map (\<lambda>h. toDateString (setHours0 (copyDate h))) holidays
      in businessDaysLoop curDate endDate holidayStrings 0)"

subsection \<open>Projection\<close>

record DatasConfig =
  dataInicial :: string
  dataFinal :: string
  feriados :: "string list"
  dataAtual :: string

text \<open>An optional text parameter is truthy when it is given and not empty.\<close>

definition truthy :: "string option \<Rightarrow> bool" where
  "truthy s = (case s of None \<Rightarrow> False | Some t \<Rightarrow> t \<noteq> [])"

text \<open>
  The period over which the average is taken (\<open>periodStart\<close>, \<open>periodEnd\<close>), from
  the parsed start of the month and reference date and the two filter texts.
\<close>

definition accumulationPeriod ::
  "Date \<Rightarrow> Date \<Rightarrow> string option \<Rightarrow> string option \<Rightarrow> Date \<times> Date" where
  "accumulationPeriod startMonth current filterStartDate filterEndDate =
     (if truthy filterStartDate \<and> truthy filterEndDate
      then (case (parseInputDate (the filterStartDate), parseInputDate (the filterEndDate)) of
              (Some fStart, Some fEnd) \<Rightarrow>
                (fStart, if date_lt fEnd current then fEnd else current)
            | _ \<Rightarrow> (startMonth, current))
      else (startMonth, current))"

definition calculateProjection ::
  "real \<Rightarrow> DatasConfig \<Rightarrow> string option \<Rightarrow> string option \<Rightarrow> real" where
  "calculateProjection currentSales config filterStartDate filterEndDate =
     (case (parseDate (dataInicial config), parseDate (dataFinal config),
            parseDate (dataAtual config)) of
        (Some startMonth, Some endMonth, Some current) \<Rightarrow>
          (let holidays = List.map_filter parseDate (feriados config);
               totalMonthBusinessDays = calculateBusinessDays startMonth endMonth holidays;
               period = accumulationPeriod startMonth current filterStartDate filterEndDate;
               passedBusinessDays = calculateBusinessDays (fst period) (snd period) holidays
           in if passedBusinessDays = 0 then 0
              else (let dailyAverage = currentSales / real passedBusinessDays
                    in dailyAverage * real totalMonthBusinessDays))
      | _ \<Rightarrow> 0)"

section \<open>The data service: rows of the sheet to typed records\<close>

text \<open>
  \<open>.normalize("NFD").replace(/[\u0300-\u036f]/g, "")\<close> splits an accented letter
  into its base letter and combining marks and drops the marks. On the code units
  below 256 this maps each accented Latin letter to its base letter and keeps every
  other character.
\<close>

definition stripAccent :: "char \<Rightarrow> char" where
  "stripAccent c =
     (let n = (of_char c :: nat)
      in if 192 \<le> n \<and> n \<le> 197 then CHR ''A''
         else if n = 199 then CHR ''C''
         else if 200 \<le> n \<and> n \<le> 203 then CHR ''E''
         else if 204 \<le> n \<and> n \<le> 207 then CHR ''I''
         else if n = 209 then CHR ''N''
         else if 210 \<le> n \<and> n \<le> 214 then CHR ''O''
         else if 217 \<le> n \<and> n \<le> 220 then CHR ''U''
         else if n = 221 then CHR ''Y''
         else if 224 \<le> n \<and> n \<le> 229 then CHR ''a''
         else if n = 231 then CHR ''c''
         else if 232 \<le> n \<and> n \<le> 235 then CHR ''e''
         else if 236 \<le> n \<and> n \<le> 239 then CHR ''i''
         else if n = 241 then CHR ''n''
         else if 242 \<le> n \<and> n \<le> 246 then CHR ''o''
         else if 249 \<le> n \<and> n \<le> 252 then CHR ''u''
         else if n = 253 \<or> n = 255 then CHR ''y''
         else c)"

text \<open>\<open>.replace(/\s+/g, " ")\<close>: every run of white space becomes one space.\<close>

fun collapseSpaces :: "bool \<Rightarrow> string \<Rightarrow> string" where
  "collapseSpaces inRun [] = []"
| "collapseSpaces inRun (c # cs) =
     (if isWhiteSpace c
      then (if inRun then collapseSpaces True cs else CHR '' '' # collapseSpaces True cs)
      else c # collapseSpaces False cs)"

text \<open>
  \<open>.toUpperCase()\<close> on the code units below 256: the letters a to z and the
  lower-case Latin letters from 224 to 254 move down by 32, the sharp s becomes
  \<open>SS\<close>; the micro sign and the y with diaeresis, whose capitals lie outside this
  range, are kept.
\<close>

definition upperChar :: "char \<Rightarrow> string" where
  "upperChar c =
     (let n = (of_char c :: nat)
      in if (97 \<le> n \<and> n \<le> 122) \<or> (224 \<le> n \<and> n \<le> 254 \<and> n \<noteq> 247)
         then [char_of (n - 32)]
         else if n = 223 then ''SS''
         else [c])"

definition toUpperCase :: "string \<Rightarrow> string" where
  "toUpperCase s = concat (map upperChar s)"

definition normalizeString :: "string \<Rightarrow> string" where
  "normalizeString str =
     (if str = [] then []
      else toUpperCase (trim (collapseSpaces False (map stripAccent str))))"

text \<open>
  A parsed row is the list of its columns, header and cell text, in the order of the
  sheet; \<open>row[k]\<close> is \<^term>\<open>map_of row k\<close> and \<open>undefined\<close> is \<^term>\<open>None\<close>.
\<close>

type_synonym row = "(string \<times> string) list"

definition getKey :: "row \<Rightarrow> string \<Rightarrow> string option" where
  "getKey row targetKey =
     (let keys = map fst row;
          normalizedTarget = normalizeString targetKey
      in case find (\<lambda>k. normalizeString k = normalizedTarget) keys of
           None \<Rightarrow> None
         | Some found \<Rightarrow> if found \<noteq> [] then map_of row found else None)"

text \<open>
  \<open>getValue\<close>: the first candidate header with a non-empty cell, else the cell of the
  column at the given position of the header line \<open>flds\<close> (\<open>results.meta.fields\<close>), else the empty text.
\<close>

fun getValue :: "string list \<Rightarrow> row \<Rightarrow> string list \<Rightarrow> nat \<Rightarrow> string" where
  "getValue flds row [] index =
     (if index < length flds \<and> flds ! index \<noteq> []
      then (case map_of row (flds ! index) of Some v \<Rightarrow> v | None \<Rightarrow> [])
      else [])"
| "getValue flds row (k # ks) index =
     (case getKey row k of
        Some val \<Rightarrow> if val \<noteq> [] then val else getValue flds row ks index
      | None \<Rightarrow> getValue flds row ks index)"

record CteData =
  cte :: string
  serie :: string
  data :: string
  dataBaixa :: string
  prazoParaBaixaDias :: string
  prazoBaixa :: string
  statusPrazo :: string
  coleta :: string
  entrega :: string
  numeroMdfe :: string
  statusMdfe :: string
  valorCte :: real

text \<open>\<open>s || '0'\<close> on a text.\<close>

definition orTextZero :: "string \<Rightarrow> string" where
  "orTextZero s = (if s = [] then ''0'' else s)"

text \<open>The record built from one row (the callback of \<open>results.data.map\<close>).\<close>

definition rowToCteData :: "string list \<Rightarrow> row \<Rightarrow> CteData" where
  "rowToCteData flds row =
     \<lparr> cte = getValue flds row [''CTE''] 0,
       serie = getValue flds row [''SERIE''] 1,
       data = getValue flds row
                [''DATA EMISSAO'', ''DATA_EMISSAO'', ''DATA (dd/m/aaaa)'', ''DATA (dd/mm/aaaa)'',
                 ''DATA'', ''Data'', ''data''] 2,
       dataBaixa = getValue flds row
                [''DATA_BAIXA'', ''DATA BAIXA (dd/mm/aaaa)'', ''DATA BAIXA'', ''Data Baixa'',
                 ''data baixa''] 3,
       prazoParaBaixaDias = getValue flds row
                [''PRAZO PARA BAIXA (DIAS)'', ''PRAZO PARA BAIXA''] 4,
       prazoBaixa = getValue flds row [''PRAZO BAIXA''] 5,
       statusPrazo = normalizeString (getValue flds row [''STATUS PRAZO''] 6),
       coleta = normalizeString (getValue flds row [''COLETA''] 7),
       entrega = normalizeString (getValue flds row [''ENTREGA''] 8),
       numeroMdfe = getValue flds row [''NUMERO MDFE''] 9,
       statusMdfe = normalizeString (getValue flds row [''STATUS MDFE''] 10),
       valorCte = parseCurrency
                    (orTextZero (getValue flds row [''VALOR_CTE'', ''VALOR CTE'', ''VALOR''] 11)) \<rparr>"

text \<open>
  \<open>fetchBaseData\<close> after the download: the header line and the parsed rows give one
  record per row.
\<close>

definition fetchBaseData :: "string list \<Rightarrow> row list \<Rightarrow> CteData list" where
  "fetchBaseData flds rows = map (rowToCteData flds) rows"

section \<open>Sorting with a comparator\<close>

text \<open>
  \<open>array.sort(cmp)\<close>: for a comparator that orders the elements consistently the
  language fixes the outcome, the stable arrangement in which no element comes before
  one that compares smaller. Inserting the elements from the right, each before the
  first element that does not compare smaller, computes it.
\<close>

fun insertSorted :: "('a \<Rightarrow> 'a \<Rightarrow> real) \<Rightarrow> 'a \<Rightarrow> 'a list \<Rightarrow> 'a list" where
  "insertSorted cmp x [] = [x]"
| "insertSorted cmp x (y # ys) =
     (if cmp x y \<le> 0 then x # y # ys else y # insertSorted cmp x ys)"

definition jsSort :: "('a \<Rightarrow> 'a \<Rightarrow> real) \<Rightarrow> 'a list \<Rightarrow> 'a list" where
  "jsSort cmp xs = foldr (insertSorted cmp) xs []"

datatype SortDirection = Asc | Desc

datatype TabView = NONE | VENDAS | BAIXAS | MANIFESTOS

section \<open>The managerial table: statistics per unit\<close>







text \<open>A field of the statistics read by its name, \<open>a[sortKey]\<close>; an unknown name is undefined.\<close>

datatype JsVal = Num real | Str string





section \<open>The detail table: filtering and ordering records\<close>

text \<open>\<open>parseDate(s)?.getTime() || 0\<close>: no date, the invalid date and the epoch all give 0.\<close>

definition timeOrZero :: "string \<Rightarrow> int" where
  "timeOrZero s = (case parseDate s of Some (Time t) \<Rightarrow> t | _ \<Rightarrow> 0)"

text \<open>
  \<open>statusPriority[s] ?? n\<close> for the two tables of the default ordering. The status
  texts are upper-case (\<open>normalizeString\<close>), so none of them names a property that
  every object inherits.
\<close>

definition prazoPriority :: "string \<Rightarrow> int" where
  "prazoPriority s =
     (case map_of [(''SEM BAIXA'', 0), (''FORA DO PRAZO'', 1), (''NO PRAZO'', 2)] s of
        Some p \<Rightarrow> p | None \<Rightarrow> 3)"

definition mdfePriority :: "string \<Rightarrow> int" where
  "mdfePriority s =
     (case map_of [(''SEM MDFE'', 0), (''COM MDFE'', 1)] s of
        Some p \<Rightarrow> p | None \<Rightarrow> 2)"

definition compareVendas :: "CteData \<Rightarrow> CteData \<Rightarrow> real" where
  "compareVendas a b = real_of_int (timeOrZero (data a) - timeOrZero (data b))"

definition compareBaixas :: "CteData \<Rightarrow> CteData \<Rightarrow> real" where
  "compareBaixas a b =
     (let pa = prazoPriority (statusPrazo a);
          pb = prazoPriority (statusPrazo b)
      in if pa \<noteq> pb then real_of_int (pa - pb)
         else real_of_int (timeOrZero (data a) - timeOrZero (data b)))"

definition compareManifestos :: "CteData \<Rightarrow> CteData \<Rightarrow> real" where
  "compareManifestos a b =
     (let pa = mdfePriority (statusMdfe a);
          pb = mdfePriority (statusMdfe b)
      in if pa \<noteq> pb then real_of_int (pa - pb)
         else real_of_int (timeOrZero (data a) - timeOrZero (data b)))"

text \<open>The columns of a record, \<open>keyof CteData\<close>, and the value a column holds.\<close>

datatype CteField =
  F_cte | F_serie | F_data | F_dataBaixa | F_prazoParaBaixaDias | F_prazoBaixa
  | F_statusPrazo | F_coleta | F_entrega | F_numeroMdfe | F_statusMdfe | F_valorCte

definition cteField :: "CteField \<Rightarrow> CteData \<Rightarrow> JsVal" where
  "cteField f a =
     (case f of
        F_cte \<Rightarrow> Str (cte a) | F_serie \<Rightarrow> Str (serie a) | F_data \<Rightarrow> Str (data a)
      | F_dataBaixa \<Rightarrow> Str (dataBaixa a) | F_prazoParaBaixaDias \<Rightarrow> Str (prazoParaBaixaDias a)
      | F_prazoBaixa \<Rightarrow> Str (prazoBaixa a) | F_statusPrazo \<Rightarrow> Str (statusPrazo a)
      | F_coleta \<Rightarrow> Str (coleta a) | F_entrega \<Rightarrow> Str (entrega a)
      | F_numeroMdfe \<Rightarrow> Str (numeroMdfe a) | F_statusMdfe \<Rightarrow> Str (statusMdfe a)
      | F_valorCte \<Rightarrow> Num (valorCte a))"

text \<open>\<open>.toLowerCase()\<close> on the code units below 256.\<close>

definition lowerChar :: "char \<Rightarrow> char" where
  "lowerChar c =
     (let n = (of_char c :: nat)
      in if (65 \<le> n \<and> n \<le> 90) \<or> (192 \<le> n \<and> n \<le> 222 \<and> n \<noteq> 215)
         then char_of (n + 32) else c)"

text \<open>\<open>sa < sb\<close> on texts: the order of the code units, a proper prefix first.\<close>

fun textLess :: "string \<Rightarrow> string \<Rightarrow> bool" where
  "textLess [] [] = False"
| "textLess [] (y # ys) = True"
| "textLess (x # xs) [] = False"
| "textLess (x # xs) (y # ys) =
     ((of_char x :: nat) < of_char y \<or> (x = y \<and> textLess xs ys))"

text \<open>
  The comparator of a manual ordering. The fields of a record are always present, so
  the tests for missing values never apply. A date column is one whose name contains
  \<open>data\<close>, or \<open>prazoBaixa\<close>.
\<close>

definition isDateField :: "CteField \<Rightarrow> bool" where
  "isDateField f = (f = F_data \<or> f = F_dataBaixa \<or> f = F_prazoBaixa)"

definition compareManual :: "CteField \<Rightarrow> SortDirection \<Rightarrow> CteData \<Rightarrow> CteData \<Rightarrow> real" where
  "compareManual sortField sortDirection a b =
     (let va = cteField sortField a;
          vb = cteField sortField b
      in if va = vb then 0
         else (case (va, vb) of
                 (Num x, Num y) \<Rightarrow> (if sortDirection = Asc then x - y else y - x)
               | (Str x, Str y) \<Rightarrow>
                   (if isDateField sortField
                    then (let da = timeOrZero x; db = timeOrZero y
                          in if sortDirection = Asc then real_of_int (da - db)
                             else real_of_int (db - da))
                    else (let sa = map lowerChar x; sb = map lowerChar y
                          in if textLess sa sb then (if sortDirection = Asc then - 1 else 1)
                             else if textLess sb sa then (if sortDirection = Asc then 1 else - 1)
                             else 0))
               | _ \<Rightarrow> 0))"

definition processedData ::
  "CteData list \<Rightarrow> TabView \<Rightarrow> string \<Rightarrow> CteField option \<Rightarrow> SortDirection \<Rightarrow> CteData list" where
  "processedData records type statusFilter sortField sortDirection =
     (let filtered =
            (if type = BAIXAS \<and> statusFilter \<noteq> ''TODOS''
             then filter (\<lambda>d. statusPrazo d = statusFilter) records
             else if type = MANIFESTOS \<and> statusFilter \<noteq> ''TODOS''
             then filter (\<lambda>d. statusMdfe d = statusFilter) records
             else records)
      in case sortField of
           None \<Rightarrow>
             (if type = VENDAS then jsSort compareVendas filtered
              else if type = BAIXAS then jsSort compareBaixas filtered
              else if type = MANIFESTOS then jsSort compareManifestos filtered
              else filtered)
         | Some f \<Rightarrow> jsSort (compareManual f sortDirection) filtered)"

section \<open>The scenario of the specification\<close>

text \<open>
  March 2024 with no holidays and 2 March 2024 as the reference date, as the
  specification's projection scenario gives it.
\<close>

definition marchScenario :: DatasConfig where
  "marchScenario =
     \<lparr> dataInicial = ''01/03/2024'', dataFinal = ''31/03/2024'', feriados = [],
       dataAtual = ''02/03/2024'' \<rparr>"

text \<open>
  A record as the scenarios of the specification write one: pickup unit, delivery
  unit, deadline status, emission date and value, every other field empty.
\<close>

definition shipment :: "string \<Rightarrow> string \<Rightarrow> string \<Rightarrow> string \<Rightarrow> real \<Rightarrow> CteData" where
  "shipment pickup delivery status emission v =
     \<lparr> cte = [], serie = [], data = emission, dataBaixa = [], prazoParaBaixaDias = [],
       prazoBaixa = [], statusPrazo = status, coleta = pickup, entrega = delivery,
       numeroMdfe = [], statusMdfe = [], valorCte = v \<rparr>"

section \<open>Properties of the parsers of dates\<close>

lemma split_not_Nil: "split sep s \<noteq> []"
  by (induction s) (auto split: list.splits)

lemma length_split: "length (split sep s) = Suc (count_list s sep)"
  by (induction s) (auto split: list.splits simp: split_not_Nil)

lemma split_no_sep: "sep \<notin> set a \<Longrightarrow> split sep a = [a]"
  by (induction a) auto

lemma split_append_sep: "sep \<notin> set a \<Longrightarrow> split sep (a @ sep # b) = a # split sep b"
  by (induction a) (auto split: list.splits)

lemma split_three:
  assumes "sep \<notin> set a" "sep \<notin> set b" "sep \<notin> set c"
  shows "split sep (a @ [sep] @ b @ [sep] @ c) = [a, b, c]"
  using assms by (simp add: split_append_sep split_no_sep)

lemma isDigit_not_delimiter: "isDigit c \<Longrightarrow> c \<noteq> CHR ''/'' \<and> c \<noteq> CHR ''-''"
  by (auto simp: isDigit_def)

lemma parseDate_three_slash:
  assumes "split (CHR ''/'') s = [a, b, c]"
  shows "parseDate s = Some (newDate (parseInt c) (minus1 (parseInt b)) (parseInt a))"
proof -
  have "count_list s (CHR ''/'') = 2"
    using length_split[of "CHR ''/''" s] assms by simp
  then have "str_includes s (CHR ''/'')" "s \<noteq> []"
    using count_list_0_iff[of s "CHR ''/''"] by (auto simp: str_includes_def)
  then show ?thesis
    by (simp add: parseDate_def assms)
qed

lemma parseDate_three_dash:
  assumes "split (CHR ''-'') s = [a, b, c]" "CHR ''/'' \<notin> set s"
  shows "parseDate s = Some (newDate (parseInt a) (minus1 (parseInt b)) (parseInt c))"
proof -
  have "count_list s (CHR ''-'') = 2"
    using length_split[of "CHR ''-''" s] assms by simp
  then have "str_includes s (CHR ''-'')" "s \<noteq> []"
    using count_list_0_iff[of s "CHR ''-''"] by (auto simp: str_includes_def)
  then show ?thesis
    using assms(2) by (simp add: parseDate_def assms(1) str_includes_def)
qed

lemma parseDate_None_iff:
  "parseDate s = None \<longleftrightarrow> count_list s (CHR ''/'') \<noteq> 2 \<and> count_list s (CHR ''-'') \<noteq> 2"
proof -
  have inc: "count_list s c = 2 \<Longrightarrow> str_includes s c" for c
    using count_list_0_iff[of s c] by (auto simp: str_includes_def)
  show ?thesis
  proof (cases "count_list s (CHR ''/'') = 2")
    case True
    then have "s \<noteq> []" by auto
    then show ?thesis using True inc[OF True]
      by (simp add: parseDate_def length_split Let_def)
  next
    case False
    note F = this
    show ?thesis
    proof (cases "count_list s (CHR ''-'') = 2")
      case True
      then have "s \<noteq> []" by auto
      then show ?thesis using F True inc[OF True]
        by (simp add: parseDate_def length_split Let_def)
    next
      case False
      then show ?thesis using F
        by (simp add: parseDate_def length_split Let_def)
    qed
  qed
qed

lemma march_dates:
  "parseDate ''01/03/2024'' = Some (Time 1709251200000)"
  "parseDate ''31/03/2024'' = Some (Time 1711843200000)"
  "parseDate ''02/03/2024'' = Some (Time 1709337600000)"
  by code_simp+

text \<open>
  C6, as the code has it. The claim that every malformed text gives the null result
  fails: \<open>parseDate\<close> only counts the parts between the delimiters. A text with
  exactly two slashes, or else exactly two dashes, always gives a \<open>Date\<close> object,
  here a date in 2032 for day 99 of month 99 and the invalid date for letters.
\<close>

theorem parseDate_malformed_counterexample:
  "parseDate ''99/99/2024'' = Some (Time 1970179200000)
   \<and> parseDate ''a/b/c'' = Some InvalidDate"
  by code_simp

text \<open>
  C6, amended: \<open>parseDate\<close> gives the null result exactly for the texts that have
  neither exactly two slashes nor exactly two dashes, the empty text among them; for
  every other text, well-formed or not, it gives a \<open>Date\<close> object.
\<close>

theorem parseDate_null_iff:
  "parseDate s = None \<longleftrightarrow> count_list s (CHR ''/'') \<noteq> 2 \<and> count_list s (CHR ''-'') \<noteq> 2"
  by (rule parseDate_None_iff)

theorem parseDate_null_iff_witness:
  "parseDate [] = None \<and> parseDate ''1/2/3/4'' = None \<and> parseDate ''01032024'' = None
   \<and> parseDate ''31/02/2024'' \<noteq> None"
  using parseDate_null_iff[of "[]"] parseDate_null_iff[of "''1/2/3/4''"]
        parseDate_null_iff[of "''01032024''"] parseDate_null_iff[of "''31/02/2024''"]
  by simp

text \<open>
  C8: a day written \<open>dd/mm/yyyy\<close> and the same day written \<open>yyyy-mm-dd\<close>, the fields
  being digits that read as the same numbers (the same digits in particular), parse to
  the same \<open>Date\<close>: the date built from the year, the month less one and the day.
\<close>

theorem parseDate_formats_agree:
  assumes "list_all isDigit dd" "list_all isDigit mm" "list_all isDigit yyyy"
      and "list_all isDigit dd'" "list_all isDigit mm'" "list_all isDigit yyyy'"
      and "parseInt dd = parseInt dd'" "parseInt mm = parseInt mm'"
          "parseInt yyyy = parseInt yyyy'"
  shows "parseDate (dd @ ''/'' @ mm @ ''/'' @ yyyy)
           = Some (newDate (parseInt yyyy) (minus1 (parseInt mm)) (parseInt dd))
       \<and> parseDate (yyyy' @ ''-'' @ mm' @ ''-'' @ dd')
           = Some (newDate (parseInt yyyy) (minus1 (parseInt mm)) (parseInt dd))
       \<and> parseDate (dd @ ''/'' @ mm @ ''/'' @ yyyy)
           = parseDate (yyyy' @ ''-'' @ mm' @ ''-'' @ dd')"
proof -
  have ns: "CHR ''/'' \<notin> set dd" "CHR ''/'' \<notin> set mm" "CHR ''/'' \<notin> set yyyy"
    using assms(1-3) isDigit_not_delimiter by (auto simp: list_all_iff)
  have ns': "CHR ''-'' \<notin> set dd'" "CHR ''-'' \<notin> set mm'" "CHR ''-'' \<notin> set yyyy'"
       "CHR ''/'' \<notin> set dd'" "CHR ''/'' \<notin> set mm'" "CHR ''/'' \<notin> set yyyy'"
    using assms(4-6) isDigit_not_delimiter by (auto simp: list_all_iff)
  have s1: "split (CHR ''/'') (dd @ ''/'' @ mm @ ''/'' @ yyyy) = [dd, mm, yyyy]"
    by (rule split_three[OF ns(1) ns(2) ns(3)])
  have s2: "split (CHR ''-'') (yyyy' @ ''-'' @ mm' @ ''-'' @ dd') = [yyyy', mm', dd']"
    by (rule split_three[OF ns'(3) ns'(2) ns'(1)])
  have c2: "CHR ''/'' \<notin> set (yyyy' @ ''-'' @ mm' @ ''-'' @ dd')"
    using ns' by simp
  have p1: "parseDate (dd @ ''/'' @ mm @ ''/'' @ yyyy)
              = Some (newDate (parseInt yyyy) (minus1 (parseInt mm)) (parseInt dd))"
    by (rule parseDate_three_slash[OF s1])
  have p2: "parseDate (yyyy' @ ''-'' @ mm' @ ''-'' @ dd')
              = Some (newDate (parseInt yyyy) (minus1 (parseInt mm)) (parseInt dd))"
    unfolding assms(7-9) by (rule parseDate_three_dash[OF s2 c2])
  have p3: "parseDate (dd @ ''/'' @ mm @ ''/'' @ yyyy)
              = parseDate (yyyy' @ ''-'' @ mm' @ ''-'' @ dd')"
    by (simp only: p1 p2)
  show ?thesis
    by (rule conjI[OF p1 conjI[OF p2 p3]])
qed

text \<open>
  The witness: 1 March 2024 written \<open>1/3/2024\<close> and \<open>2024-03-01\<close> is the same date,
  midnight of day 19783.
\<close>

theorem parseDate_formats_agree_witness:
  "list_all isDigit ''1'' \<and> list_all isDigit ''3'' \<and> list_all isDigit ''2024''
   \<and> list_all isDigit ''01'' \<and> list_all isDigit ''03''
   \<and> parseInt ''1'' = parseInt ''01'' \<and> parseInt ''3'' = parseInt ''03''
   \<and> parseDate ''1/3/2024'' = Some (Time 1709251200000)
   \<and> parseDate ''2024-03-01'' = Some (Time 1709251200000)
   \<and> Day 1709251200000 = 19783"
proof -
  have h1: "list_all isDigit ''1''" and h2: "list_all isDigit ''3''"
    and h3: "list_all isDigit ''2024''" and h4: "list_all isDigit ''01''"
    and h5: "list_all isDigit ''03''"
    by (simp_all add: isDigit_def)
  have e1: "parseInt ''1'' = parseInt ''01''" and e2: "parseInt ''3'' = parseInt ''03''"
    by code_simp+
  have v: "newDate (parseInt ''2024'') (minus1 (parseInt ''3'')) (parseInt ''1'')
             = Time 1709251200000"
    by code_simp
  have d: "Day 1709251200000 = 19783"
    by (simp add: Day_def msPerDay_def)
  show ?thesis
    using parseDate_formats_agree[OF h1 h2 h3 h4 h5 h3 e1 e2 refl] h1 h2 h3 h4 h5 e1 e2 d
    unfolding v by simp
qed

section \<open>Properties of the business-day count\<close>

lemma Day_mult: "Day (d * msPerDay) = d"
  by (simp add: Day_def msPerDay_def)

lemma maxTime_days: "maxTime = 100000000 * msPerDay"
  by (simp add: maxTime_def msPerDay_def)

lemma midnight_in_range:
  assumes "\<bar>t\<bar> \<le> maxTime"
  shows "\<bar>Day t * msPerDay\<bar> \<le> maxTime"
proof -
  have "t div 86400000 * 86400000 + t mod 86400000 = t"
    by (rule div_mult_mod_eq)
  moreover have "0 \<le> t mod 86400000" by simp
  ultimately have "Day t * msPerDay \<le> t"
    unfolding Day_def msPerDay_def by linarith
  moreover have "- 100000000 \<le> Day t"
    using assms unfolding Day_def maxTime_def msPerDay_def by linarith
  ultimately show ?thesis
    using assms unfolding maxTime_days msPerDay_def by linarith
qed

lemma setHours0_copy:
  assumes "\<bar>t\<bar> \<le> maxTime"
  shows "setHours0 (copyDate (Time t)) = Time (Day t * msPerDay)"
  using assms midnight_in_range[OF assms]
  by (simp add: setHours0_def copyDate_def TimeClip_def)

lemma loop_stops: "\<not> date_le c e \<Longrightarrow> businessDaysLoop c e hs n = n"
  by (subst businessDaysLoop.simps) simp

text \<open>
  The loop from one midnight to another counts the days in between that are neither
  Saturday nor Sunday nor a holiday, by induction on the number of days left.
\<close>

lemma loop_count:
  assumes "\<bar>dc * msPerDay\<bar> \<le> maxTime" "\<bar>de * msPerDay\<bar> \<le> maxTime"
  shows "businessDaysLoop (Time (dc * msPerDay)) (Time (de * msPerDay)) hs n =
           n + length (filter (\<lambda>d. WeekDay d \<noteq> 0 \<and> WeekDay d \<noteq> 6 \<and> Some d \<notin> set hs) [dc..de])"
  using assms
proof (induction "nat (de - dc + 1)" arbitrary: dc n)
  case 0
  then have "de < dc" by simp
  then have "\<not> date_le (Time (dc * msPerDay)) (Time (de * msPerDay))"
    by (simp add: date_le_def msPerDay_def)
  then show ?case using \<open>de < dc\<close> by (simp add: loop_stops)
next
  case (Suc k)
  then have le: "dc \<le> de" by simp
  let ?n' = "if WeekDay dc \<noteq> 0 \<and> WeekDay dc \<noteq> 6 \<and> Some dc \<notin> set hs then n + 1 else n"
  have dle: "date_le (Time (dc * msPerDay)) (Time (de * msPerDay))"
    using le by (simp add: date_le_def msPerDay_def)
  have step: "businessDaysLoop (Time (dc * msPerDay)) (Time (de * msPerDay)) hs n =
              businessDaysLoop (setDateNext (Time (dc * msPerDay))) (Time (de * msPerDay)) hs ?n'"
    using dle by (subst businessDaysLoop.simps) (simp add: getDay_def toDateString_def Day_mult)
  have up: "[dc..de] = dc # [dc + 1..de]"
    using le by (simp add: upto_rec1)
  show ?case
  proof (cases "dc + 1 \<le> de")
    case True
    have rng: "\<bar>(dc + 1) * msPerDay\<bar> \<le> maxTime"
      using True Suc.prems unfolding msPerDay_def maxTime_def abs_le_iff by auto
    have nxt: "setDateNext (Time (dc * msPerDay)) = Time ((dc + 1) * msPerDay)"
      using rng by (simp add: setDateNext_def TimeClip_def algebra_simps)
    have k: "k = nat (de - (dc + 1) + 1)" using Suc.hyps(2) by simp
    show ?thesis
      unfolding step nxt Suc.hyps(1)[OF k rng Suc.prems(2)] up by simp
  next
    case False
    then have eq: "de = dc" using le by simp
    have "\<not> date_le (setDateNext (Time (dc * msPerDay))) (Time (de * msPerDay))"
      unfolding eq by (simp add: setDateNext_def TimeClip_def date_le_def msPerDay_def)
    then show ?thesis
      unfolding step up using False by (simp add: loop_stops)
  qed
qed

lemma holidayStrings_mem:
  assumes "\<forall>h\<in>set holidays. wfDate h"
  shows "Some d \<in> set (map (\<lambda>h. toDateString (setHours0 (copyDate h))) holidays)
         \<longleftrightarrow> (\<exists>t. Time t \<in> set holidays \<and> Day t = d)"
proof -
  have one: "toDateString (setHours0 (copyDate h)) = Some d \<longleftrightarrow> (\<exists>t. h = Time t \<and> Day t = d)"
    if "wfDate h" for h
  proof (cases h)
    case InvalidDate
    then show ?thesis by (simp add: copyDate_def setHours0_def toDateString_def)
  next
    case (Time t)
    then have "\<bar>t\<bar> \<le> maxTime" using that by (simp add: wfDate_def)
    then show ?thesis using Time
      by (auto simp add: setHours0_copy toDateString_def Day_mult)
  qed
  show ?thesis
  proof
    assume "Some d \<in> set (map (\<lambda>h. toDateString (setHours0 (copyDate h))) holidays)"
    then obtain h where h: "h \<in> set holidays" "toDateString (setHours0 (copyDate h)) = Some d"
      by auto
    then have "\<exists>t. h = Time t \<and> Day t = d" using one assms by blast
    then show "\<exists>t. Time t \<in> set holidays \<and> Day t = d" using h(1) by blast
  next
    assume "\<exists>t. Time t \<in> set holidays \<and> Day t = d"
    then obtain t where t: "Time t \<in> set holidays" "Day t = d" by blast
    then have "toDateString (setHours0 (copyDate (Time t))) = Some d"
      using one[of "Time t"] assms by blast
    then show "Some d \<in> set (map (\<lambda>h. toDateString (setHours0 (copyDate h))) holidays)"
      using t(1) by force
  qed
qed

lemma businessDays_as_filter:
  assumes "\<bar>s\<bar> \<le> maxTime" "\<bar>e\<bar> \<le> maxTime" "\<forall>h\<in>set holidays. wfDate h"
  shows "calculateBusinessDays (Time s) (Time e) holidays =
           length (filter (\<lambda>d. WeekDay d \<noteq> 0 \<and> WeekDay d \<noteq> 6
                               \<and> \<not> (\<exists>t. Time t \<in> set holidays \<and> Day t = d)) [Day s..Day e])"
proof -
  have "calculateBusinessDays (Time s) (Time e) holidays =
        businessDaysLoop (Time (Day s * msPerDay)) (Time (Day e * msPerDay))
           (map (\<lambda>h. toDateString (setHours0 (copyDate h))) holidays) 0"
    by (simp add: calculateBusinessDays_def setHours0_copy[OF assms(1)] setHours0_copy[OF assms(2)])
  also have "\<dots> = length (filter (\<lambda>d. WeekDay d \<noteq> 0 \<and> WeekDay d \<noteq> 6
                 \<and> Some d \<notin> set (map (\<lambda>h. toDateString (setHours0 (copyDate h))) holidays)) [Day s..Day e])"
    using loop_count[OF midnight_in_range[OF assms(1)] midnight_in_range[OF assms(2)]] by simp
  finally show ?thesis
    unfolding holidayStrings_mem[OF assms(3)] .
qed

lemma count_as_card:
  "length (filter P [a..b]) = card {d. a \<le> d \<and> d \<le> b \<and> P d}"
proof -
  have d: "distinct (filter P [a..b])" by simp
  have "length (filter P [a..b]) = card (set (filter P [a..b]))"
    by (rule distinct_card[OF d, symmetric])
  also have "set (filter P [a..b]) = {d. a \<le> d \<and> d \<le> b \<and> P d}" by auto
  finally show ?thesis .
qed

text \<open>
  C2: for dates \<open>start\<close> and \<open>end\<close> and a list of holidays,
  \<open>calculateBusinessDays\<close> is the number of days from the day of \<open>start\<close> to the
  day of \<open>end\<close>, both included and whatever the times of day, that are neither
  Saturday (6) nor Sunday (0) nor the day of a holiday. So a single day with no
  holidays counts 1 on a weekday and 0 on a weekend, and the count is 0 when the
  day of \<open>start\<close> is after the day of \<open>end\<close>.
\<close>

theorem calculateBusinessDays_counts_days:
  assumes "\<bar>s\<bar> \<le> maxTime" "\<bar>e\<bar> \<le> maxTime" "\<forall>h\<in>set holidays. wfDate h"
  shows "calculateBusinessDays (Time s) (Time e) holidays =
           card {d. Day s \<le> d \<and> d \<le> Day e \<and> WeekDay d \<noteq> 0 \<and> WeekDay d \<noteq> 6
                    \<and> \<not> (\<exists>t. Time t \<in> set holidays \<and> Day t = d)}
       \<and> calculateBusinessDays (Time s) (Time s) [] =
           (if WeekDay (Day s) = 0 \<or> WeekDay (Day s) = 6 then 0 else 1)
       \<and> (Day e < Day s \<longrightarrow> calculateBusinessDays (Time s) (Time e) holidays = 0)"
proof -
  have a: "calculateBusinessDays (Time s) (Time e) holidays =
           card {d. Day s \<le> d \<and> d \<le> Day e \<and> WeekDay d \<noteq> 0 \<and> WeekDay d \<noteq> 6
                    \<and> \<not> (\<exists>t. Time t \<in> set holidays \<and> Day t = d)}"
    unfolding businessDays_as_filter[OF assms] count_as_card ..
  have b: "calculateBusinessDays (Time s) (Time s) [] =
           (if WeekDay (Day s) = 0 \<or> WeekDay (Day s) = 6 then 0 else 1)"
    using businessDays_as_filter[OF assms(1) assms(1), of "[]"] by simp
  have c: "Day e < Day s \<longrightarrow> calculateBusinessDays (Time s) (Time e) holidays = 0"
    using businessDays_as_filter[OF assms] by simp
  show ?thesis
    by (rule conjI[OF a conjI[OF b c]])
qed

text \<open>
  The witness: from the morning of Friday 1 March 2024 to the morning of Sunday
  31 March 2024, with Good Friday, 29 March, a holiday, there are 20 business days.
\<close>

theorem calculateBusinessDays_counts_days_witness:
  "\<bar>1709289000000\<bar> \<le> maxTime \<and> \<bar>1711872000000\<bar> \<le> maxTime
   \<and> wfDate (Time 1711713600000)
   \<and> calculateBusinessDays (Time 1709289000000) (Time 1711872000000) [Time 1711713600000] = 20
   \<and> card {d. Day 1709289000000 \<le> d \<and> d \<le> Day 1711872000000 \<and> WeekDay d \<noteq> 0 \<and> WeekDay d \<noteq> 6
             \<and> \<not> (\<exists>t. Time t \<in> set [Time 1711713600000] \<and> Day t = d)} = 20"
proof -
  have h1: "\<bar>1709289000000\<bar> \<le> maxTime" and h2: "\<bar>1711872000000\<bar> \<le> maxTime"
    by (simp_all add: maxTime_def)
  have h3: "\<forall>h\<in>set [Time 1711713600000]. wfDate h"
    by (simp add: wfDate_def maxTime_def)
  have v: "calculateBusinessDays (Time 1709289000000) (Time 1711872000000) [Time 1711713600000] = 20"
    by code_simp
  have c: "card {d. Day 1709289000000 \<le> d \<and> d \<le> Day 1711872000000 \<and> WeekDay d \<noteq> 0 \<and> WeekDay d \<noteq> 6
             \<and> \<not> (\<exists>t. Time t \<in> set [Time 1711713600000] \<and> Day t = d)} = 20"
    using calculateBusinessDays_counts_days[OF h1 h2 h3] unfolding v by simp
  have h3': "wfDate (Time 1711713600000)"
    using h3 by simp
  show ?thesis
    using h1 h2 h3' v c by blast
qed

section \<open>Properties of the projection\<close>

lemma calculateProjection_unfold:
  assumes "parseDate (dataInicial config) = Some startMonth"
      and "parseDate (dataFinal config) = Some endMonth"
      and "parseDate (dataAtual config) = Some current"
  shows "calculateProjection currentSales config filterStartDate filterEndDate =
     (let holidays = List.map_filter parseDate (feriados config);
          totalBusinessDays = calculateBusinessDays startMonth endMonth holidays;
          window = accumulationPeriod startMonth current filterStartDate filterEndDate;
          elapsedBusinessDays = calculateBusinessDays (fst window) (snd window) holidays
      in if elapsedBusinessDays = 0 then 0
         else (currentSales / real elapsedBusinessDays) * real totalBusinessDays)"
  unfolding calculateProjection_def assms by (simp add: Let_def)

lemma accumulationPeriod_filters:
  assumes "parseInputDate fs = Some (Time a)" "parseInputDate fe = Some (Time b)"
  shows "accumulationPeriod startMonth (Time ref) (Some fs) (Some fe) = (Time a, Time (min b ref))"
proof -
  have "fs \<noteq> []" "fe \<noteq> []" using assms by (auto simp: parseInputDate_def)
  then show ?thesis using assms
    by (auto simp: accumulationPeriod_def truthy_def date_lt_def min_def)
qed

lemma accumulationPeriod_default:
  assumes "\<not> truthy fs \<or> \<not> truthy fe"
  shows "accumulationPeriod startMonth current fs fe = (startMonth, current)"
  using assms by (auto simp: accumulationPeriod_def)

lemma march_total: "calculateBusinessDays (Time 1709251200000) (Time 1711843200000) [] = 21"
  by code_simp

lemma march_elapsed: "calculateBusinessDays (Time 1709251200000) (Time 1709337600000) [] = 1"
  by code_simp

lemma march_scenario_value: "calculateProjection 300 marchScenario None None = 6300"
proof -
  have w: "accumulationPeriod (Time 1709251200000) (Time 1709337600000) None None
         = (Time 1709251200000, Time 1709337600000)"
    by (simp add: accumulationPeriod_def truthy_def)
  show ?thesis
    using calculateProjection_unfold[of marchScenario "Time 1709251200000"
            "Time 1711843200000" "Time 1709337600000" 300 None None]
    by (simp add: marchScenario_def march_dates w List.map_filter_simps march_total
                  march_elapsed)
qed

text \<open>
  C1, as the code has it. The scenario of the claim fails: 2 March 2024 is a
  Saturday, so from 1 March to 2 March there is one business day, not two, and the
  projection of 300 is not 3150.
\<close>

theorem march_projection_counterexample:
  "getDay (the (parseDate (dataAtual marchScenario))) = Some 6
   \<and> calculateBusinessDays (the (parseDate (dataInicial marchScenario)))
                            (the (parseDate (dataAtual marchScenario))) [] \<noteq> 2
   \<and> calculateProjection 300 marchScenario None None \<noteq> 3150"
proof -
  have "getDay (Time 1709337600000) = Some 6" by code_simp
  then show ?thesis
    by (simp add: marchScenario_def march_dates march_elapsed march_scenario_value[unfolded marchScenario_def])
qed

text \<open>
  C1, amended: when the three dates of the configuration parse, \<open>calculateProjection\<close>
  is 0 if the accumulation window holds no business day, and otherwise the sales
  divided by the business days of the window, times the business days from the start
  to the end of the period. In the March 2024 scenario there are 21 business days in
  the period and 1 in the window, and the projection of 300 is 6300.
\<close>

theorem calculateProjection_formula:
  assumes "parseDate (dataInicial config) = Some startMonth"
      and "parseDate (dataFinal config) = Some endMonth"
      and "parseDate (dataAtual config) = Some current"
  shows "calculateProjection currentSales config filterStartDate filterEndDate =
     (let holidays = List.map_filter parseDate (feriados config);
          totalBusinessDays = calculateBusinessDays startMonth endMonth holidays;
          window = accumulationPeriod startMonth current filterStartDate filterEndDate;
          elapsedBusinessDays = calculateBusinessDays (fst window) (snd window) holidays
      in if elapsedBusinessDays = 0 then 0
         else (currentSales / real elapsedBusinessDays) * real totalBusinessDays)
   \<and> calculateBusinessDays (the (parseDate (dataInicial marchScenario)))
                            (the (parseDate (dataFinal marchScenario))) [] = 21
   \<and> calculateBusinessDays (the (parseDate (dataInicial marchScenario)))
                            (the (parseDate (dataAtual marchScenario))) [] = 1
   \<and> calculateProjection 300 marchScenario None None = 6300"
proof -
  have sc: "calculateBusinessDays (the (parseDate (dataInicial marchScenario)))
                            (the (parseDate (dataFinal marchScenario))) [] = 21
   \<and> calculateBusinessDays (the (parseDate (dataInicial marchScenario)))
                            (the (parseDate (dataAtual marchScenario))) [] = 1"
    by (simp add: marchScenario_def march_dates march_total march_elapsed)
  show ?thesis
    using calculateProjection_unfold[OF assms] sc march_scenario_value by blast
qed

text \<open>
  The witness: March 2024 with Good Friday a holiday and 8 March the reference date
  has 20 business days in the period and 6 in the default window, so sales of 1200
  project to 4000.
\<close>

theorem calculateProjection_formula_witness:
  "parseDate ''01/03/2024'' = Some (Time 1709251200000)
   \<and> parseDate ''31/03/2024'' = Some (Time 1711843200000)
   \<and> parseDate ''08/03/2024'' = Some (Time 1709856000000)
   \<and> calculateProjection 1200
        \<lparr> dataInicial = ''01/03/2024'', dataFinal = ''31/03/2024'',
          feriados = [''29/03/2024''], dataAtual = ''08/03/2024'' \<rparr> None None = 4000"
proof -
  let ?cfg = "\<lparr> dataInicial = ''01/03/2024'', dataFinal = ''31/03/2024'',
                feriados = [''29/03/2024''], dataAtual = ''08/03/2024'' \<rparr>"
  have d: "parseDate ''08/03/2024'' = Some (Time 1709856000000)"
          "parseDate ''29/03/2024'' = Some (Time 1711670400000)"
    by code_simp+
  have h1: "parseDate (dataInicial ?cfg) = Some (Time 1709251200000)"
   and h2: "parseDate (dataFinal ?cfg) = Some (Time 1711843200000)"
   and h3: "parseDate (dataAtual ?cfg) = Some (Time 1709856000000)"
    by (simp_all add: march_dates d)
  have t: "calculateBusinessDays (Time 1709251200000) (Time 1711843200000) [Time 1711670400000] = 20"
    by code_simp
  have e: "calculateBusinessDays (Time 1709251200000) (Time 1709856000000) [Time 1711670400000] = 6"
    by code_simp
  have w: "accumulationPeriod (Time 1709251200000) (Time 1709856000000) None None
             = (Time 1709251200000, Time 1709856000000)"
    by (simp add: accumulationPeriod_def truthy_def)
  have "calculateProjection 1200 ?cfg None None = 4000"
    using calculateProjection_formula[OF h1 h2 h3, of 1200 None None]
    by (simp add: w d List.map_filter_simps t e)
  then show ?thesis
    using march_dates d by simp
qed

text \<open>
  C4: with the dates of the configuration parsed and the reference date valid, two
  filter texts that parse to valid dates make the window run from the filter start,
  wherever it lies, to the earlier of the filter end and the reference date; when a
  filter text is missing or empty the window runs from the period start to the
  reference date. The elapsed business days are counted over that window.
\<close>

theorem calculateProjection_window:
  assumes "parseDate (dataInicial config) = Some startMonth"
      and "parseDate (dataFinal config) = Some endMonth"
      and "parseDate (dataAtual config) = Some (Time ref)"
  shows "(parseInputDate fs = Some (Time a) \<and> parseInputDate fe = Some (Time b) \<longrightarrow>
            accumulationPeriod startMonth (Time ref) (Some fs) (Some fe)
              = (Time a, Time (min b ref))
          \<and> calculateProjection currentSales config (Some fs) (Some fe) =
             (let holidays = List.map_filter parseDate (feriados config);
                  totalBusinessDays = calculateBusinessDays startMonth endMonth holidays;
                  elapsedBusinessDays =
                    calculateBusinessDays (Time a) (Time (min b ref)) holidays
              in if elapsedBusinessDays = 0 then 0
                 else (currentSales / real elapsedBusinessDays) * real totalBusinessDays))
       \<and> (\<not> truthy filterStartDate \<or> \<not> truthy filterEndDate \<longrightarrow>
            accumulationPeriod startMonth (Time ref) filterStartDate filterEndDate
              = (startMonth, Time ref)
          \<and> calculateProjection currentSales config filterStartDate filterEndDate =
             (let holidays = List.map_filter parseDate (feriados config);
                  totalBusinessDays = calculateBusinessDays startMonth endMonth holidays;
                  elapsedBusinessDays = calculateBusinessDays startMonth (Time ref) holidays
              in if elapsedBusinessDays = 0 then 0
                 else (currentSales / real elapsedBusinessDays) * real totalBusinessDays))"
proof (intro conjI impI)
  assume f: "parseInputDate fs = Some (Time a) \<and> parseInputDate fe = Some (Time b)"
  show w: "accumulationPeriod startMonth (Time ref) (Some fs) (Some fe)
             = (Time a, Time (min b ref))"
    using f by (simp add: accumulationPeriod_filters)
  show "calculateProjection currentSales config (Some fs) (Some fe) =
             (let holidays = List.map_filter parseDate (feriados config);
                  totalBusinessDays = calculateBusinessDays startMonth endMonth holidays;
                  elapsedBusinessDays =
                    calculateBusinessDays (Time a) (Time (min b ref)) holidays
              in if elapsedBusinessDays = 0 then 0
                 else (currentSales / real elapsedBusinessDays) * real totalBusinessDays)"
    unfolding calculateProjection_unfold[OF assms] w by (simp add: Let_def)
next
  assume n: "\<not> truthy filterStartDate \<or> \<not> truthy filterEndDate"
  show w: "accumulationPeriod startMonth (Time ref) filterStartDate filterEndDate
             = (startMonth, Time ref)"
    by (rule accumulationPeriod_default[OF n])
  show "calculateProjection currentSales config filterStartDate filterEndDate =
             (let holidays = List.map_filter parseDate (feriados config);
                  totalBusinessDays = calculateBusinessDays startMonth endMonth holidays;
                  elapsedBusinessDays = calculateBusinessDays startMonth (Time ref) holidays
              in if elapsedBusinessDays = 0 then 0
                 else (currentSales / real elapsedBusinessDays) * real totalBusinessDays)"
    unfolding calculateProjection_unfold[OF assms] w by (simp add: Let_def)
qed

text \<open>
  The witness: the period is March 2024 with 8 March the reference date, and the
  filter runs from Monday 26 February to 31 March. The window starts on 26 February,
  before the period, and ends on 8 March, so it holds 10 business days and sales of
  1000 project to 2000; from 1 March it would hold 6.
\<close>

theorem calculateProjection_window_witness:
  "parseDate ''01/03/2024'' = Some (Time 1709251200000)
   \<and> parseDate ''31/03/2024'' = Some (Time 1711843200000)
   \<and> parseDate ''08/03/2024'' = Some (Time 1709856000000)
   \<and> parseInputDate ''2024-02-26'' = Some (Time 1708905600000)
   \<and> parseInputDate ''2024-03-31'' = Some (Time 1711843200000)
   \<and> \<not> truthy None
   \<and> calculateProjection 1000
        \<lparr> dataInicial = ''01/03/2024'', dataFinal = ''31/03/2024'',
          feriados = [''29/03/2024''], dataAtual = ''08/03/2024'' \<rparr>
        (Some ''2024-02-26'') (Some ''2024-03-31'') = 2000
   \<and> calculateProjection 1200
        \<lparr> dataInicial = ''01/03/2024'', dataFinal = ''31/03/2024'',
          feriados = [''29/03/2024''], dataAtual = ''08/03/2024'' \<rparr>
        None (Some ''2024-03-31'') = 4000"
proof -
  let ?cfg = "\<lparr> dataInicial = ''01/03/2024'', dataFinal = ''31/03/2024'',
                feriados = [''29/03/2024''], dataAtual = ''08/03/2024'' \<rparr>"
  have d: "parseDate ''08/03/2024'' = Some (Time 1709856000000)"
          "parseDate ''29/03/2024'' = Some (Time 1711670400000)"
    by code_simp+
  have i: "parseInputDate ''2024-02-26'' = Some (Time 1708905600000)"
          "parseInputDate ''2024-03-31'' = Some (Time 1711843200000)"
    by code_simp+
  have h1: "parseDate (dataInicial ?cfg) = Some (Time 1709251200000)"
   and h2: "parseDate (dataFinal ?cfg) = Some (Time 1711843200000)"
   and h3: "parseDate (dataAtual ?cfg) = Some (Time 1709856000000)"
    by (simp_all add: march_dates d)
  have t: "calculateBusinessDays (Time 1709251200000) (Time 1711843200000) [Time 1711670400000] = 20"
    by code_simp
  have e1: "calculateBusinessDays (Time 1708905600000) (Time 1709856000000) [Time 1711670400000] = 10"
    by code_simp
  have e2: "calculateBusinessDays (Time 1709251200000) (Time 1709856000000) [Time 1711670400000] = 6"
    by code_simp
  have nt: "\<not> truthy None" by (simp add: truthy_def)
  have r1: "calculateProjection 1000 ?cfg (Some ''2024-02-26'') (Some ''2024-03-31'') = 2000"
    using calculateProjection_window[OF h1 h2 h3, of "''2024-02-26''" 1708905600000
            "''2024-03-31''" 1711843200000 1000 None None] i
    by (simp add: d List.map_filter_simps t e1)
  have r2: "calculateProjection 1200 ?cfg None (Some ''2024-03-31'') = 4000"
    using calculateProjection_window[OF h1 h2 h3, of "''2024-02-26''" 1708905600000
            "''2024-03-31''" 1711843200000 1200 None "Some ''2024-03-31''"] nt
    by (simp add: d List.map_filter_simps t e2)
  show ?thesis
    using march_dates d i nt r1 r2 by simp
qed

lemma calculateBusinessDays_invalid:
  "calculateBusinessDays InvalidDate e hs = 0" "calculateBusinessDays s InvalidDate hs = 0"
proof -
  have a: "\<not> date_le InvalidDate x" for x by (simp add: date_le_def)
  have b: "\<not> date_le x InvalidDate" for x by (cases x) (simp_all add: date_le_def)
  show "calculateBusinessDays InvalidDate e hs = 0"
    by (simp add: calculateBusinessDays_def copyDate_def setHours0_def loop_stops[OF a])
  show "calculateBusinessDays s InvalidDate hs = 0"
    by (simp add: calculateBusinessDays_def copyDate_def setHours0_def loop_stops[OF b])
qed

lemma accumulationPeriod_invalid_end:
  "snd (accumulationPeriod startMonth InvalidDate fs fe) = InvalidDate"
  by (auto simp: accumulationPeriod_def date_lt_def split: option.splits Date.splits)

lemma calculateProjection_invalid:
  assumes "parseDate (dataInicial config) = Some startMonth"
      and "parseDate (dataFinal config) = Some endMonth"
      and "parseDate (dataAtual config) = Some current"
      and "startMonth = InvalidDate \<or> endMonth = InvalidDate \<or> current = InvalidDate"
  shows "calculateProjection currentSales config filterStartDate filterEndDate = 0"
proof -
  consider "current = InvalidDate" | "startMonth = InvalidDate \<or> endMonth = InvalidDate"
    using assms(4) by blast
  then show ?thesis
  proof cases
    case 1
    show ?thesis
      unfolding calculateProjection_unfold[OF assms(1-3)] 1
      by (simp add: Let_def accumulationPeriod_invalid_end calculateBusinessDays_invalid)
  next
    case 2
    then have "calculateBusinessDays startMonth endMonth
                 (List.map_filter parseDate (feriados config)) = 0"
      using calculateBusinessDays_invalid by auto
    then show ?thesis
      unfolding calculateProjection_unfold[OF assms(1-3)] by (simp add: Let_def)
  qed
qed

text \<open>
  C10: when the period start, the period end or the reference date of the
  configuration gives the null result of \<open>parseDate\<close>, \<open>calculateProjection\<close> is 0
  whatever the sales, the holidays and the filter texts are. The result is 0 as well
  when one of the three texts gives the invalid date: a count of business days
  is then 0.
\<close>

theorem calculateProjection_unparsed:
  "(parseDate (dataInicial config) = None \<or> parseDate (dataFinal config) = None
      \<or> parseDate (dataAtual config) = None
    \<longrightarrow> calculateProjection currentSales config filterStartDate filterEndDate = 0)
   \<and> (parseDate (dataInicial config) = Some InvalidDate
      \<or> parseDate (dataFinal config) = Some InvalidDate
      \<or> parseDate (dataAtual config) = Some InvalidDate
    \<longrightarrow> calculateProjection currentSales config filterStartDate filterEndDate = 0)"
proof (intro conjI impI)
  assume "parseDate (dataInicial config) = None \<or> parseDate (dataFinal config) = None
      \<or> parseDate (dataAtual config) = None"
  then show "calculateProjection currentSales config filterStartDate filterEndDate = 0"
    unfolding calculateProjection_def by (auto split: option.splits)
next
  assume i: "parseDate (dataInicial config) = Some InvalidDate
      \<or> parseDate (dataFinal config) = Some InvalidDate
      \<or> parseDate (dataAtual config) = Some InvalidDate"
  show "calculateProjection currentSales config filterStartDate filterEndDate = 0"
  proof (cases "parseDate (dataInicial config) = None \<or> parseDate (dataFinal config) = None
      \<or> parseDate (dataAtual config) = None")
    case True
    then show ?thesis
      unfolding calculateProjection_def by (auto split: option.splits)
  next
    case False
    then obtain a b c where abc: "parseDate (dataInicial config) = Some a"
        "parseDate (dataFinal config) = Some b" "parseDate (dataAtual config) = Some c"
      by auto
    then have "a = InvalidDate \<or> b = InvalidDate \<or> c = InvalidDate"
      using i by auto
    then show ?thesis
      by (rule calculateProjection_invalid[OF abc])
  qed
qed

text \<open>
  The witness: a period end written with dots has no delimiter that \<open>parseDate\<close>
  knows and gives the null result; a reference date written in words gives the
  invalid date. The projection is 0 in both cases.
\<close>

theorem calculateProjection_unparsed_witness:
  "parseDate (dataFinal \<lparr> dataInicial = ''01/03/2024'', dataFinal = ''31.03.2024'',
                          feriados = [''29/03/2024''], dataAtual = ''08/03/2024'' \<rparr>) = None
   \<and> calculateProjection 1000
        \<lparr> dataInicial = ''01/03/2024'', dataFinal = ''31.03.2024'',
          feriados = [''29/03/2024''], dataAtual = ''08/03/2024'' \<rparr>
        (Some ''2024-03-01'') (Some ''2024-03-31'') = 0
   \<and> parseDate (dataAtual \<lparr> dataInicial = ''01/03/2024'', dataFinal = ''31/03/2024'',
                          feriados = [], dataAtual = ''eight/march/2024'' \<rparr>)
       = Some InvalidDate
   \<and> calculateProjection 1000
        \<lparr> dataInicial = ''01/03/2024'', dataFinal = ''31/03/2024'',
          feriados = [], dataAtual = ''eight/march/2024'' \<rparr>
        (Some ''2024-03-01'') (Some ''2024-03-31'') = 0"
proof -
  have n: "parseDate ''31.03.2024'' = None" by code_simp
  have i: "parseDate ''eight/march/2024'' = Some InvalidDate" by code_simp
  have a: "calculateProjection 1000
        \<lparr> dataInicial = ''01/03/2024'', dataFinal = ''31.03.2024'',
          feriados = [''29/03/2024''], dataAtual = ''08/03/2024'' \<rparr>
        (Some ''2024-03-01'') (Some ''2024-03-31'') = 0"
    using calculateProjection_unparsed[of
            "\<lparr> dataInicial = ''01/03/2024'', dataFinal = ''31.03.2024'',
               feriados = [''29/03/2024''], dataAtual = ''08/03/2024'' \<rparr>"
            1000 "Some ''2024-03-01''" "Some ''2024-03-31''"] n
    by simp
  have b: "calculateProjection 1000
        \<lparr> dataInicial = ''01/03/2024'', dataFinal = ''31/03/2024'',
          feriados = [], dataAtual = ''eight/march/2024'' \<rparr>
        (Some ''2024-03-01'') (Some ''2024-03-31'') = 0"
    using calculateProjection_unparsed[of
            "\<lparr> dataInicial = ''01/03/2024'', dataFinal = ''31/03/2024'',
               feriados = [], dataAtual = ''eight/march/2024'' \<rparr>"
            1000 "Some ''2024-03-01''" "Some ''2024-03-31''"] i
    by simp
  show ?thesis
    using n i a b by simp
qed

section \<open>Properties of the currency parser\<close>



lemma set_trim: "set (trim s) \<subseteq> set s"
proof -
  have "set (dropWhile P xs) \<subseteq> set xs" for P and xs :: string
    by (metis set_dropWhileD subsetI)
  then show ?thesis
    unfolding trim_def by (metis set_rev subset_trans)
qed

lemma set_replaceFirstComma: "set (replaceFirstComma s) \<subseteq> insert (CHR ''.'') (set s)"
  by (induction s) auto



lemma isDigit_chars:
  "isDigit c \<Longrightarrow> c \<noteq> CHR ''.'' \<and> c \<noteq> CHR '','' \<and> c \<noteq> CHR ''-'' \<and> \<not> isWhiteSpace c"
  by (auto simp: isDigit_def isWhiteSpace_def)



lemma parseFloat_integer:
  assumes "list_all isDigit d"
  shows "parseFloat d = (if d = [] then None else Some (real (digitsValue 10 digitVal d)))"
proof -
  have neg: "(case d of c # _ \<Rightarrow> c = CHR ''-'' | [] \<Rightarrow> False) = False"
    using assms isDigit_chars by (cases d) auto
  have tw: "takeWhile isDigit d = d" "dropWhile isDigit d = []"
    using assms by (simp_all add: list_all_iff)
  show ?thesis
    unfolding parseFloat_def neg Let_def if_False tw by (simp add: digitsValue_def)
qed


lemma parseFloat_no_minus:
  assumes "CHR ''-'' \<notin> set s" "parseFloat s = Some v"
  shows "0 \<le> v"
proof -
  have neg: "(case s of c # _ \<Rightarrow> c = CHR ''-'' | [] \<Rightarrow> False) = False"
    using assms(1) by (cases s) auto
  show ?thesis
    using assms(2) unfolding parseFloat_def neg Let_def if_False
    by (auto split: if_splits)
qed

lemma parseCurrency_cleanedText: "parseCurrency s = (if s = [] then 0 else orZero (parseFloat (cleanedText s)))"
  by (simp add: parseCurrency_def cleanedText_def Let_def)

lemma set_cleanedText: "set (cleanedText s) \<subseteq> insert (CHR ''.'') (set s)"
proof -
  have a: "set (keepNumeric x) \<subseteq> set x" for x by (auto simp: keepNumeric_def)
  have b: "set (removeDots x) \<subseteq> set x" for x by (auto simp: removeDots_def)
  show ?thesis
    unfolding cleanedText_def
    using a b set_trim[of s] set_replaceFirstComma by (auto; blast)
qed


lemma parseCurrency_no_minus:
  assumes "CHR ''-'' \<notin> set s"
  shows "0 \<le> parseCurrency s"
proof -
  have "CHR ''-'' \<notin> set (cleanedText s)"
    using set_cleanedText[of s] assms by auto
  then show ?thesis
    using parseFloat_no_minus[of "cleanedText s"]
    by (auto simp add: parseCurrency_cleanedText orZero_def split: option.splits)
qed






section \<open>Properties of the record normaliser\<close>


lemma valorCte_rowToCteData:
  "valorCte (rowToCteData flds row) =
     parseCurrency (orTextZero (getValue flds row [''VALOR_CTE'', ''VALOR CTE'', ''VALOR''] 11))"
  by (simp add: rowToCteData_def)

lemma negative_row:
  "valorCte (rowToCteData [''CTE'', ''VALOR_CTE''] [(''CTE'', ''1''), (''VALOR_CTE'', ''-5,00'')]) = - 5"
proof -
  have g: "getValue [''CTE'', ''VALOR_CTE''] [(''CTE'', ''1''), (''VALOR_CTE'', ''-5,00'')]
             [''VALOR_CTE'', ''VALOR CTE'', ''VALOR''] 11 = ''-5,00''"
    by code_simp
  have c: "cleanedText ''-5,00'' = ''-5.00''" by code_simp
  have p: "parseFloat ''-5.00'' = Some (- 5)"
    by (simp add: parseFloat_def isDigit_def digitsValue_def digitVal_def)
  show ?thesis
    unfolding valorCte_rowToCteData g
    by (simp add: orTextZero_def parseCurrency_cleanedText c p orZero_def)
qed

text \<open>
  C9, as the code has it. The claim that the value of a record is never negative
  fails: the cleaning keeps the minus sign, so a cell \<open>-5,00\<close> gives the value -5.
\<close>


theorem valorCte_negative_counterexample:
  "valorCte (rowToCteData [''CTE'', ''VALOR_CTE''] [(''CTE'', ''1''), (''VALOR_CTE'', ''-5,00'')]) = - 5
   \<and> \<not> 0 \<le> valorCte (rowToCteData [''CTE'', ''VALOR_CTE''] [(''CTE'', ''1''), (''VALOR_CTE'', ''-5,00'')])"
  by (simp add: negative_row)

text \<open>
  C9, amended: the value of a record is the number that \<open>parseCurrency\<close> reads from
  the resolved value text (from \<open>0\<close> when none is resolved); it is not negative
  whenever that text has no minus sign.
\<close>


theorem valorCte_sign:
  "valorCte (rowToCteData flds row) =
     parseCurrency (orTextZero (getValue flds row [''VALOR_CTE'', ''VALOR CTE'', ''VALOR''] 11))
   \<and> (CHR ''-'' \<notin> set (getValue flds row [''VALOR_CTE'', ''VALOR CTE'', ''VALOR''] 11)
        \<longrightarrow> 0 \<le> valorCte (rowToCteData flds row))
   \<and> ((\<forall>r\<in>set rows. CHR ''-'' \<notin> set (getValue flds r [''VALOR_CTE'', ''VALOR CTE'', ''VALOR''] 11))
        \<longrightarrow> (\<forall>d\<in>set (fetchBaseData flds rows). 0 \<le> valorCte d))"
proof -
  have one: "0 \<le> valorCte (rowToCteData flds r)"
    if "CHR ''-'' \<notin> set (getValue flds r [''VALOR_CTE'', ''VALOR CTE'', ''VALOR''] 11)" for r
  proof -
    have "CHR ''-'' \<notin> set (orTextZero (getValue flds r [''VALOR_CTE'', ''VALOR CTE'', ''VALOR''] 11))"
      using that by (simp add: orTextZero_def)
    then show ?thesis
      unfolding valorCte_rowToCteData by (rule parseCurrency_no_minus)
  qed
  show ?thesis
    using one valorCte_rowToCteData by (auto simp: fetchBaseData_def)
qed

theorem valorCte_sign_witness:
  "CHR ''-'' \<notin> set (getValue [''CTE'', ''VALOR_CTE''] [(''CTE'', ''1''), (''Valor  CTE'', ''R$ 1.000,50'')]
                       [''VALOR_CTE'', ''VALOR CTE'', ''VALOR''] 11)
   \<and> valorCte (rowToCteData [''CTE'', ''VALOR_CTE''] [(''CTE'', ''1''), (''Valor  CTE'', ''R$ 1.000,50'')]) = 1000.5
   \<and> 0 \<le> valorCte (rowToCteData [''CTE'', ''VALOR_CTE''] [(''CTE'', ''1''), (''Valor  CTE'', ''R$ 1.000,50'')])"
proof -
  have g: "getValue [''CTE'', ''VALOR_CTE''] [(''CTE'', ''1''), (''Valor  CTE'', ''R$ 1.000,50'')]
                       [''VALOR_CTE'', ''VALOR CTE'', ''VALOR''] 11 = ''R$ 1.000,50''"
    by code_simp
  have c: "cleanedText ''R$ 1.000,50'' = ''1000.50''" by code_simp
  have f: "parseFloat ''1000.50'' = Some 1000.5"
    by (simp add: parseFloat_def isDigit_def digitsValue_def digitVal_def)
  have p: "parseCurrency (orTextZero ''R$ 1.000,50'') = 1000.5"
    by (simp add: orTextZero_def parseCurrency_cleanedText c f orZero_def)
  show ?thesis
    using valorCte_sign[of "[''CTE'', ''VALOR_CTE'']" "[(''CTE'', ''1''), (''Valor  CTE'', ''R$ 1.000,50'')]" "[]"]
    unfolding g p by simp
qed

section \<open>Properties of the statistics per unit\<close>


lemma mset_insertSorted: "mset (insertSorted cmp x ys) = add_mset x (mset ys)"
  by (induction ys) auto

lemma mset_jsSort: "mset (jsSort cmp xs) = mset xs"
  unfolding jsSort_def by (induction xs) (auto simp: mset_insertSorted)















section \<open>Properties of the detail table\<close>

lemma set_insertSorted: "set (insertSorted cmp x ys) = insert x (set ys)"
  by (induction ys) auto

lemma sorted_insertSorted:
  assumes tot: "\<And>x y. R x y \<or> R y x"
      and tr: "\<And>x y z. R x y \<Longrightarrow> R y z \<Longrightarrow> R x z"
      and cmp: "\<And>x y. cmp x y \<le> 0 \<longleftrightarrow> R x y"
  shows "sorted_wrt R ys \<Longrightarrow> sorted_wrt R (insertSorted cmp x ys)"
proof (induction ys)
  case Nil
  then show ?case by simp
next
  case (Cons y ys)
  show ?case
  proof (cases "cmp x y \<le> 0")
    case True
    then have "R x y" using cmp by blast
    then have "\<forall>z\<in>set ys. R x z" using Cons.prems tr by auto
    then show ?thesis using True Cons.prems \<open>R x y\<close> by simp
  next
    case False
    then have "R y x" using cmp tot by blast
    then show ?thesis using False Cons by (auto simp: set_insertSorted)
  qed
qed

lemma sorted_jsSort:
  assumes tot: "\<And>x y. R x y \<or> R y x"
      and tr: "\<And>x y z. R x y \<Longrightarrow> R y z \<Longrightarrow> R x z"
      and cmp: "\<And>x y. cmp x y \<le> 0 \<longleftrightarrow> R x y"
  shows "sorted_wrt R (jsSort cmp xs)"
  unfolding jsSort_def
  by (induction xs) (auto intro: sorted_insertSorted[where R = R, OF tot tr cmp])

lemma compareBaixas_le:
  "compareBaixas a b \<le> 0 \<longleftrightarrow>
     prazoPriority (statusPrazo a) < prazoPriority (statusPrazo b)
     \<or> (prazoPriority (statusPrazo a) = prazoPriority (statusPrazo b)
        \<and> timeOrZero (data a) \<le> timeOrZero (data b))"
  by (auto simp: compareBaixas_def Let_def)

lemma prazoPriority_values:
  "prazoPriority ''SEM BAIXA'' = 0" "prazoPriority ''FORA DO PRAZO'' = 1"
  "prazoPriority ''NO PRAZO'' = 2"
  "s \<noteq> ''SEM BAIXA'' \<Longrightarrow> s \<noteq> ''FORA DO PRAZO'' \<Longrightarrow> s \<noteq> ''NO PRAZO'' \<Longrightarrow> prazoPriority s = 3"
  by (simp_all add: prazoPriority_def)

lemma processedData_baixas:
  "processedData records BAIXAS statusFilter None sortDirection =
     jsSort compareBaixas
       (if statusFilter = ''TODOS'' then records
        else filter (\<lambda>d. statusPrazo d = statusFilter) records)"
  by (simp add: processedData_def Let_def)

lemma baixas_sorted:
  "sorted_wrt (\<lambda>a b. prazoPriority (statusPrazo a) < prazoPriority (statusPrazo b)
                   \<or> (prazoPriority (statusPrazo a) = prazoPriority (statusPrazo b)
                      \<and> timeOrZero (data a) \<le> timeOrZero (data b)))
     (jsSort compareBaixas xs)"
  by (rule sorted_jsSort[where cmp = compareBaixas]) (auto simp: compareBaixas_le)

text \<open>
  C7: in the deadline view with no manual ordering, the records shown are the records
  that pass the status filter, arranged so that a record never comes after one of a
  higher status priority, and among records of the same priority never after one with
  a later emission time. The priorities are 0 for \<open>SEM BAIXA\<close>, 1 for
  \<open>FORA DO PRAZO\<close>, 2 for \<open>NO PRAZO\<close> and 3 for every other status; the emission
  time of a record whose date parses is the time value of that date.
\<close>

theorem deadline_view_default_order:
  "mset (processedData records BAIXAS statusFilter None sortDirection)
     = mset (if statusFilter = ''TODOS'' then records
             else filter (\<lambda>d. statusPrazo d = statusFilter) records)
   \<and> sorted_wrt (\<lambda>a b. prazoPriority (statusPrazo a) < prazoPriority (statusPrazo b)
                   \<or> (prazoPriority (statusPrazo a) = prazoPriority (statusPrazo b)
                      \<and> timeOrZero (data a) \<le> timeOrZero (data b)))
       (processedData records BAIXAS statusFilter None sortDirection)
   \<and> prazoPriority ''SEM BAIXA'' = 0 \<and> prazoPriority ''FORA DO PRAZO'' = 1
   \<and> prazoPriority ''NO PRAZO'' = 2
   \<and> (s \<noteq> ''SEM BAIXA'' \<and> s \<noteq> ''FORA DO PRAZO'' \<and> s \<noteq> ''NO PRAZO'' \<longrightarrow> prazoPriority s = 3)
   \<and> (parseDate emission = Some (Time t) \<longrightarrow> timeOrZero emission = t)"
proof -
  have a: "mset (processedData records BAIXAS statusFilter None sortDirection)
     = mset (if statusFilter = ''TODOS'' then records
             else filter (\<lambda>d. statusPrazo d = statusFilter) records)"
    unfolding processedData_baixas by (rule mset_jsSort)
  have b: "sorted_wrt (\<lambda>a b. prazoPriority (statusPrazo a) < prazoPriority (statusPrazo b)
                   \<or> (prazoPriority (statusPrazo a) = prazoPriority (statusPrazo b)
                      \<and> timeOrZero (data a) \<le> timeOrZero (data b)))
       (processedData records BAIXAS statusFilter None sortDirection)"
    unfolding processedData_baixas by (rule baixas_sorted)
  have c: "parseDate emission = Some (Time t) \<longrightarrow> timeOrZero emission = t"
    by (simp add: timeOrZero_def)
  show ?thesis
    using a b c prazoPriority_values by blast
qed

lemma deadline_example:
  "processedData
     [shipment ''A'' ''B'' ''NO PRAZO'' ''01/03/2024'' 1,
      shipment ''A'' ''B'' ''EXTRAVIADO'' ''01/03/2024'' 2,
      shipment ''A'' ''B'' ''FORA DO PRAZO'' ''01/03/2024'' 3,
      shipment ''A'' ''B'' ''SEM BAIXA'' ''02/03/2024'' 4,
      shipment ''A'' ''B'' ''SEM BAIXA'' ''01/03/2024'' 5]
     BAIXAS ''TODOS'' None Asc
   = [shipment ''A'' ''B'' ''SEM BAIXA'' ''01/03/2024'' 5,
      shipment ''A'' ''B'' ''SEM BAIXA'' ''02/03/2024'' 4,
      shipment ''A'' ''B'' ''FORA DO PRAZO'' ''01/03/2024'' 3,
      shipment ''A'' ''B'' ''NO PRAZO'' ''01/03/2024'' 1,
      shipment ''A'' ''B'' ''EXTRAVIADO'' ''01/03/2024'' 2]"
proof -
  have t: "timeOrZero ''01/03/2024'' = 1709251200000" "timeOrZero ''02/03/2024'' = 1709337600000"
    by (simp_all add: timeOrZero_def march_dates)
  have p: "prazoPriority ''EXTRAVIADO'' = 3" by (simp add: prazoPriority_def)
  show ?thesis
    by (simp add: processedData_baixas jsSort_def compareBaixas_def shipment_def Let_def t p prazoPriority_values)
qed

text \<open>
  The witness: five records in the order on time, unknown status, out of deadline, no
  write-off on 2 March, no write-off on 1 March come out as no write-off (1 March,
  2 March), out of deadline, on time, unknown.
\<close>

theorem deadline_view_default_order_witness:
  "processedData
     [shipment ''A'' ''B'' ''NO PRAZO'' ''01/03/2024'' 1,
      shipment ''A'' ''B'' ''EXTRAVIADO'' ''01/03/2024'' 2,
      shipment ''A'' ''B'' ''FORA DO PRAZO'' ''01/03/2024'' 3,
      shipment ''A'' ''B'' ''SEM BAIXA'' ''02/03/2024'' 4,
      shipment ''A'' ''B'' ''SEM BAIXA'' ''01/03/2024'' 5]
     BAIXAS ''TODOS'' None Asc
   = [shipment ''A'' ''B'' ''SEM BAIXA'' ''01/03/2024'' 5,
      shipment ''A'' ''B'' ''SEM BAIXA'' ''02/03/2024'' 4,
      shipment ''A'' ''B'' ''FORA DO PRAZO'' ''01/03/2024'' 3,
      shipment ''A'' ''B'' ''NO PRAZO'' ''01/03/2024'' 1,
      shipment ''A'' ''B'' ''EXTRAVIADO'' ''01/03/2024'' 2]
   \<and> sorted_wrt (\<lambda>a b. prazoPriority (statusPrazo a) < prazoPriority (statusPrazo b)
                   \<or> (prazoPriority (statusPrazo a) = prazoPriority (statusPrazo b)
                      \<and> timeOrZero (data a) \<le> timeOrZero (data b)))
       [shipment ''A'' ''B'' ''SEM BAIXA'' ''01/03/2024'' 5,
        shipment ''A'' ''B'' ''SEM BAIXA'' ''02/03/2024'' 4,
        shipment ''A'' ''B'' ''FORA DO PRAZO'' ''01/03/2024'' 3,
        shipment ''A'' ''B'' ''NO PRAZO'' ''01/03/2024'' 1,
        shipment ''A'' ''B'' ''EXTRAVIADO'' ''01/03/2024'' 2]
   \<and> prazoPriority ''EXTRAVIADO'' = 3"
proof -
  have x: "''EXTRAVIADO'' \<noteq> ''SEM BAIXA'' \<and> ''EXTRAVIADO'' \<noteq> ''FORA DO PRAZO''
           \<and> ''EXTRAVIADO'' \<noteq> ''NO PRAZO''"
    by simp
  note T = deadline_view_default_order[of
     "[shipment ''A'' ''B'' ''NO PRAZO'' ''01/03/2024'' 1,
      shipment ''A'' ''B'' ''EXTRAVIADO'' ''01/03/2024'' 2,
      shipment ''A'' ''B'' ''FORA DO PRAZO'' ''01/03/2024'' 3,
      shipment ''A'' ''B'' ''SEM BAIXA'' ''02/03/2024'' 4,
      shipment ''A'' ''B'' ''SEM BAIXA'' ''01/03/2024'' 5]" "''TODOS''" Asc "''EXTRAVIADO''"
     "[]" 0]
  show ?thesis
    using T x unfolding deadline_example by blast
qed

end
